theory Spec2Isabelle
  imports Main
begin

section \<open>Python values used by the crawler script\<close>

text \<open>
  A Python \<open>str\<close> is a sequence of Unicode code points and \<open>len\<close> counts code points,
  so a string is a list of code points here. \<open>lit\<close> turns a literal of the script
  (all of them ASCII) into such a string.
\<close>

type_synonym pystr = "nat list"

definition lit :: "string \<Rightarrow> pystr" where
  "lit s = map of_char s"

text \<open>The values the script reads out of a result and passes on without looking inside.\<close>

datatype pyval = PNone | PInt int | PStr pystr

text \<open>Decimal digits of a natural number, most significant first.\<close>

fun digits :: "nat \<Rightarrow> pystr" where
  "digits n = (if n < 10 then [48 + n] else digits (n div 10) @ [48 + n mod 10])"

declare digits.simps [simp del]

text \<open>\<open>str(i)\<close> for an \<open>int\<close>, as an f-string field \<open>{i}\<close> renders it.\<close>

definition str_int :: "int \<Rightarrow> pystr" where
  "str_int i = (if i < 0 then lit ''-'' @ digits (nat (- i)) else digits (nat i))"

text \<open>\<open>str(v)\<close>, applied by an f-string field \<open>{v}\<close>.\<close>

fun py_str :: "pyval \<Rightarrow> pystr" where
  "py_str PNone = lit ''None''"
| "py_str (PInt i) = str_int i"
| "py_str (PStr s) = s"

text \<open>
  A \<open>dict\<close> with string keys, in insertion order; \<open>d.get(k, dflt)\<close> returns the
  default only when the key is not in the dictionary.
\<close>

type_synonym 'v pydict = "(pystr \<times> 'v) list"

definition dict_get :: "'v pydict \<Rightarrow> pystr \<Rightarrow> 'v \<Rightarrow> 'v" where
  "dict_get d k dflt = (case map_of d k of None \<Rightarrow> dflt | Some v \<Rightarrow> v)"

text \<open>An attribute that \<open>hasattr\<close> may or may not find on an object.\<close>

datatype 'a attr = NoAttr | Attr 'a

section \<open>The crawl configuration and the page results\<close>

record bfs_deep_crawl_strategy =
  max_depth :: int
  max_pages :: int
  include_external :: bool

datatype scraping = LXMLWebScrapingStrategy

record crawler_run_config =
  deep_crawl_strategy :: bfs_deep_crawl_strategy
  scraping_strategy :: scraping
  verbose :: bool

text \<open>
  One crawled page, with the fields the script reads: \<open>url\<close>, the \<open>metadata\<close>
  dictionary (on which \<open>.get\<close> is called unguarded), \<open>status_code\<close>, \<open>cleaned_html\<close>
  (a string or \<open>None\<close>), and \<open>links\<close> and \<open>media\<close>, which the script guards with
  \<open>hasattr\<close> and a truth test: each may be missing, \<open>None\<close>, or a dictionary of lists.
\<close>

record crawl_result =
  url :: pystr
  metadata :: "pyval pydict"
  status_code :: pyval
  cleaned_html :: "pystr option"
  links :: "pyval list pydict option attr"
  media :: "pyval list pydict option attr"

section \<open>Derived per-page values\<close>

text \<open>\<open>len(result.cleaned_html) if result.cleaned_html else 0\<close> (lines 52, 76 and 102).\<close>

definition content_length :: "crawl_result \<Rightarrow> int" where
  "content_length r =
     (case cleaned_html r of
        None \<Rightarrow> 0
      | Some s \<Rightarrow> if s \<noteq> [] then int (length s) else 0)"

text \<open>\<open>result.metadata.get('depth', 0)\<close> (lines 50, 74, 100 and 122).\<close>

definition depth :: "crawl_result \<Rightarrow> pyval" where
  "depth r = dict_get (metadata r) (lit ''depth'') (PInt 0)"

text \<open>
  Line 56, evaluated only under the guard \<open>if result.cleaned_html\<close> of line 54:
  \<open>result.cleaned_html[:500] + "..." if len(result.cleaned_html) > 500 else result.cleaned_html\<close>.
\<close>

definition md_content_preview :: "pystr \<Rightarrow> pystr" where
  "md_content_preview s = (if length s > 500 then take 500 s @ lit ''...'' else s)"

text \<open>Line 80, the same expression in the text writer, under the guard of line 78.\<close>

definition txt_content_preview :: "pystr \<Rightarrow> pystr" where
  "txt_content_preview s = (if length s > 500 then take 500 s @ lit ''...'' else s)"

text \<open>
  Line 105, unguarded:
  \<open>result.cleaned_html[:500] + "..." if result.cleaned_html and len(result.cleaned_html) > 500
    else result.cleaned_html or ""\<close>.
\<close>

definition json_content_preview :: "pystr option \<Rightarrow> pystr" where
  "json_content_preview c =
     (case c of
        None \<Rightarrow> lit ''''
      | Some s \<Rightarrow>
          if s \<noteq> [] \<and> length s > 500 then take 500 s @ lit ''...''
          else if s \<noteq> [] then s else lit '''')"

text \<open>
  Line 106:
  \<open>len(result.links.get('internal', [])) if hasattr(result, 'links') and result.links else 0\<close>.
  An empty dictionary is false.
\<close>

definition links_found :: "crawl_result \<Rightarrow> int" where
  "links_found r =
     (case links r of
        NoAttr \<Rightarrow> 0
      | Attr None \<Rightarrow> 0
      | Attr (Some d) \<Rightarrow> if d \<noteq> [] then int (length (dict_get d (lit ''internal'') [])) else 0)"

text \<open>Line 107, the same for \<open>result.media\<close> and the key \<open>'images'\<close>.\<close>

definition images_found :: "crawl_result \<Rightarrow> int" where
  "images_found r =
     (case media r of
        NoAttr \<Rightarrow> 0
      | Attr None \<Rightarrow> 0
      | Attr (Some d) \<Rightarrow> if d \<noteq> [] then int (length (dict_get d (lit ''images'') [])) else 0)"

section \<open>The markdown writer\<close>

text \<open>Line 48: the heading of page \<open>i\<close>.\<close>

definition md_heading :: "int \<Rightarrow> pystr" where
  "md_heading i = lit ''## Page '' @ str_int i @ lit ''\<newline>\<newline>''"

text \<open>Lines 49 to 52: the four field lines of one page.\<close>

definition md_fields :: "crawl_result \<Rightarrow> pystr" where
  "md_fields r =
     lit ''**URL:** '' @ url r @ lit ''\<newline>''
     @ lit ''**Depth:** '' @ py_str (depth r) @ lit ''\<newline>''
     @ lit ''**Status Code:** '' @ py_str (status_code r) @ lit ''\<newline>''
     @ lit ''**Content Length:** '' @ str_int (content_length r)
     @ lit '' characters\<newline>\<newline>''"

text \<open>Lines 54 to 57: the fenced preview, written only when \<open>cleaned_html\<close> is true.\<close>

definition md_preview_block :: "crawl_result \<Rightarrow> pystr" where
  "md_preview_block r =
     (case cleaned_html r of
        None \<Rightarrow> []
      | Some s \<Rightarrow>
          if s \<noteq> [] then
            lit ''**Content Preview:**\<newline>```\<newline>'' @ md_content_preview s
            @ lit ''\<newline>```\<newline>\<newline>''
          else [])"

text \<open>The body of the loop of line 47: everything written for page \<open>i\<close>.\<close>

definition md_page :: "int \<Rightarrow> crawl_result \<Rightarrow> pystr" where
  "md_page i r = md_heading i @ md_fields r @ md_preview_block r @ lit ''---\<newline>\<newline>''"

text \<open>
  \<open>for i, result in enumerate(results, 1)\<close>: the counter starts at the given value and
  each pass appends its writes to the file.
\<close>

fun md_loop :: "int \<Rightarrow> crawl_result list \<Rightarrow> pystr \<Rightarrow> pystr" where
  "md_loop i [] f = f"
| "md_loop i (r # rs) f = md_loop (i + 1) rs (f @ md_page i r)"

text \<open>Lines 40 to 45; \<open>date\<close> is the crawl date already formatted.\<close>

definition md_header :: "pystr \<Rightarrow> crawl_result list \<Rightarrow> pystr" where
  "md_header date results =
     lit ''# Web Crawling Results\<newline>\<newline>''
     @ lit ''**Crawl Date:** '' @ date @ lit ''\<newline>''
     @ lit ''**Total Pages Crawled:** '' @ str_int (int (length results)) @ lit ''\<newline>''
     @ lit ''**Max Pages Limit:** 200\<newline>''
     @ lit ''**Starting URL:** https://www.wikipedia.org\<newline>\<newline>''
     @ lit ''---\<newline>\<newline>''"

definition md_document :: "pystr \<Rightarrow> crawl_result list \<Rightarrow> pystr" where
  "md_document date results = md_loop 1 results (md_header date results)"

section \<open>The text writer\<close>

text \<open>Line 72.\<close>

definition txt_heading :: "int \<Rightarrow> pystr" where
  "txt_heading i = lit ''PAGE '' @ str_int i @ lit ''\<newline>''"

text \<open>Lines 73 to 76.\<close>

definition txt_fields :: "crawl_result \<Rightarrow> pystr" where
  "txt_fields r =
     lit ''URL: '' @ url r @ lit ''\<newline>''
     @ lit ''Depth: '' @ py_str (depth r) @ lit ''\<newline>''
     @ lit ''Status Code: '' @ py_str (status_code r) @ lit ''\<newline>''
     @ lit ''Content Length: '' @ str_int (content_length r)
     @ lit '' characters\<newline>\<newline>''"

text \<open>Lines 78 to 81.\<close>

definition txt_preview_block :: "crawl_result \<Rightarrow> pystr" where
  "txt_preview_block r =
     (case cleaned_html r of
        None \<Rightarrow> []
      | Some s \<Rightarrow>
          if s \<noteq> [] then
            lit ''Content Preview:\<newline>'' @ txt_content_preview s @ lit ''\<newline>\<newline>''
          else [])"

text \<open>\<open>"-" * 50\<close> and \<open>"=" * 50\<close>.\<close>

definition str_times :: "pystr \<Rightarrow> nat \<Rightarrow> pystr" where
  "str_times s n = concat (replicate n s)"

definition txt_page :: "int \<Rightarrow> crawl_result \<Rightarrow> pystr" where
  "txt_page i r =
     txt_heading i @ txt_fields r @ txt_preview_block r
     @ str_times (lit ''-'') 50 @ lit ''\<newline>\<newline>''"

fun txt_loop :: "int \<Rightarrow> crawl_result list \<Rightarrow> pystr \<Rightarrow> pystr" where
  "txt_loop i [] f = f"
| "txt_loop i (r # rs) f = txt_loop (i + 1) rs (f @ txt_page i r)"

text \<open>Lines 63 to 69.\<close>

definition txt_header :: "pystr \<Rightarrow> crawl_result list \<Rightarrow> pystr" where
  "txt_header date results =
     lit ''WEB CRAWLING RESULTS\<newline>''
     @ str_times (lit ''='') 50 @ lit ''\<newline>\<newline>''
     @ lit ''Crawl Date: '' @ date @ lit ''\<newline>''
     @ lit ''Total Pages Crawled: '' @ str_int (int (length results)) @ lit ''\<newline>''
     @ lit ''Max Pages Limit: 200\<newline>''
     @ lit ''Starting URL: https://www.wikipedia.org\<newline>\<newline>''
     @ str_times (lit ''-'') 50 @ lit ''\<newline>\<newline>''"

definition txt_document :: "pystr \<Rightarrow> crawl_result list \<Rightarrow> pystr" where
  "txt_document date results = txt_loop 1 results (txt_header date results)"

section \<open>The JSON data\<close>

text \<open>
  What \<open>json.dump\<close> is given: atoms, lists, and dictionaries that keep the order in
  which their keys were inserted.
\<close>

datatype json = JAtom pyval | JArr "json list" | JObj "(pystr \<times> json) list"

text \<open>Lines 97 to 108: the dictionary literal built for page \<open>i\<close>.\<close>

definition page_data :: "int \<Rightarrow> crawl_result \<Rightarrow> (pystr \<times> json) list" where
  "page_data i r =
     [ (lit ''page_number'', JAtom (PInt i)),
       (lit ''url'', JAtom (PStr (url r))),
       (lit ''depth'', JAtom (depth r)),
       (lit ''status_code'', JAtom (status_code r)),
       (lit ''content_length'', JAtom (PInt (content_length r))),
       (lit ''title'', JAtom (dict_get (metadata r) (lit ''title'') (PStr (lit '''')))),
       (lit ''description'', JAtom (dict_get (metadata r) (lit ''description'') (PStr (lit '''')))),
       (lit ''content_preview'', JAtom (PStr (json_content_preview (cleaned_html r)))),
       (lit ''links_found'', JAtom (PInt (links_found r))),
       (lit ''images_found'', JAtom (PInt (images_found r))) ]"

text \<open>
  Lines 96 to 109: each pass appends one page dictionary to the list under
  \<open>"results"\<close>, which starts empty.
\<close>

fun json_loop :: "int \<Rightarrow> crawl_result list \<Rightarrow> json list \<Rightarrow> json list" where
  "json_loop i [] acc = acc"
| "json_loop i (r # rs) acc = json_loop (i + 1) rs (acc @ [JObj (page_data i r)])"

text \<open>Lines 86 to 94.\<close>

definition crawl_info :: "pystr \<Rightarrow> crawl_result list \<Rightarrow> (pystr \<times> json) list" where
  "crawl_info date results =
     [ (lit ''crawl_date'', JAtom (PStr date)),
       (lit ''total_pages_crawled'', JAtom (PInt (int (length results)))),
       (lit ''max_pages_limit'', JAtom (PInt 200)),
       (lit ''starting_url'', JAtom (PStr (lit ''https://www.wikipedia.org''))) ]"

definition json_data :: "pystr \<Rightarrow> crawl_result list \<Rightarrow> (pystr \<times> json) list" where
  "json_data date results =
     [ (lit ''crawl_info'', JObj (crawl_info date results)),
       (lit ''results'', JArr (json_loop 1 results [])) ]"

section \<open>Serialising the JSON data\<close>

text \<open>
  \<open>json.dump(json_data, json_file, indent=2, ensure_ascii=False)\<close> (line 112) is the
  encoder of Python's standard library. It is modelled with both of the parameters the
  script sets, so that what the script's choice of them gives can be stated.

  Its table of escapes: backslash, the double quote, the five named control characters,
  and \<open>\u00XX\<close> for every other character below \<open>0x20\<close>.
\<close>

definition hex_digit :: "nat \<Rightarrow> nat" where
  "hex_digit n = (if n < 10 then 48 + n else 87 + n)"

text \<open>\<open>'{0:04x}'.format(n)\<close> for \<open>n < 0x10000\<close>.\<close>

definition hex4 :: "nat \<Rightarrow> pystr" where
  "hex4 n =
     [hex_digit (n div 4096 mod 16), hex_digit (n div 256 mod 16),
      hex_digit (n div 16 mod 16), hex_digit (n mod 16)]"

definition escape_dct :: "nat \<Rightarrow> pystr option" where
  "escape_dct c =
     (if c = 0x5C then Some [0x5C, 0x5C]
      else if c = 0x22 then Some [0x5C, 0x22]
      else if c = 0x08 then Some (0x5C # lit ''b'')
      else if c = 0x0C then Some (0x5C # lit ''f'')
      else if c = 0x0A then Some (0x5C # lit ''n'')
      else if c = 0x0D then Some (0x5C # lit ''r'')
      else if c = 0x09 then Some (0x5C # lit ''t'')
      else if c < 0x20 then Some (0x5C # lit ''u'' @ hex4 c)
      else None)"

text \<open>
  With \<open>ensure_ascii=False\<close> only the characters of the table are replaced; every other
  character, whatever its code point, is written as it is.
\<close>

definition escape_char :: "nat \<Rightarrow> pystr" where
  "escape_char c = (case escape_dct c of Some e \<Rightarrow> e | None \<Rightarrow> [c])"

text \<open>
  With \<open>ensure_ascii=True\<close> (the default, which the script overrides) every character
  outside \<open>' '\<close> to \<open>'~'\<close> is replaced too: by \<open>\uXXXX\<close>, or by a surrogate pair above
  the basic plane.
\<close>

definition escape_char_ascii :: "nat \<Rightarrow> pystr" where
  "escape_char_ascii c =
     (case escape_dct c of
        Some e \<Rightarrow> e
      | None \<Rightarrow>
          if 0x20 \<le> c \<and> c \<le> 0x7E then [c]
          else if c < 0x10000 then 0x5C # lit ''u'' @ hex4 c
          else
            (let n = c - 0x10000;
                 s1 = 0xD800 + n div 1024 mod 1024;
                 s2 = 0xDC00 + n mod 1024
             in 0x5C # lit ''u'' @ hex4 s1 @ 0x5C # lit ''u'' @ hex4 s2))"

definition encode_str :: "bool \<Rightarrow> pystr \<Rightarrow> pystr" where
  "encode_str ensure_ascii s =
     [0x22] @ concat (map (if ensure_ascii then escape_char_ascii else escape_char) s) @ [0x22]"

fun encode_atom :: "bool \<Rightarrow> pyval \<Rightarrow> pystr" where
  "encode_atom ensure_ascii PNone = lit ''null''"
| "encode_atom ensure_ascii (PInt i) = str_int i"
| "encode_atom ensure_ascii (PStr s) = encode_str ensure_ascii s"

text \<open>\<open>sep.join(xs)\<close>.\<close>

fun join :: "pystr \<Rightarrow> pystr list \<Rightarrow> pystr" where
  "join sep [] = []"
| "join sep [x] = x"
| "join sep (x # y # ys) = x @ sep @ join sep (y # ys)"

text \<open>
  With an indent of \<open>n\<close>, every item of a non-empty list or dictionary starts on a line of
  its own, \<open>n\<close> spaces deeper than its parent, and the item separator is \<open>","\<close>; with no
  indent there are no line breaks and the item separator is \<open>", "\<close>. The key separator is
  \<open>": "\<close> in both cases.
\<close>

definition newline_indent :: "nat option \<Rightarrow> nat \<Rightarrow> pystr" where
  "newline_indent indent level =
     (case indent of
        None \<Rightarrow> []
      | Some n \<Rightarrow> lit ''\<newline>'' @ str_times (str_times (lit '' '') n) level)"

definition item_separator :: "nat option \<Rightarrow> pystr" where
  "item_separator indent = (case indent of None \<Rightarrow> lit '', '' | Some n \<Rightarrow> lit '','')"

fun json_encode :: "nat option \<Rightarrow> bool \<Rightarrow> nat \<Rightarrow> json \<Rightarrow> pystr" where
  "json_encode indent ensure_ascii level (JAtom v) = encode_atom ensure_ascii v"
| "json_encode indent ensure_ascii level (JArr xs) =
     (if xs = [] then lit ''[]''
      else
        lit ''['' @ newline_indent indent (level + 1)
        @ join (item_separator indent @ newline_indent indent (level + 1))
            (map (json_encode indent ensure_ascii (level + 1)) xs)
        @ newline_indent indent level @ lit '']'')"
| "json_encode indent ensure_ascii level (JObj kvs) =
     (if kvs = [] then lit ''{}''
      else
        lit ''{'' @ newline_indent indent (level + 1)
        @ join (item_separator indent @ newline_indent indent (level + 1))
            (map (\<lambda>kv. encode_str ensure_ascii (fst kv) @ lit '': ''
                         @ json_encode indent ensure_ascii (level + 1) (snd kv)) kvs)
        @ newline_indent indent level @ lit ''}'')"

text \<open>\<open>json.dumps(obj, indent=indent, ensure_ascii=ensure_ascii)\<close> of a dictionary.\<close>

definition json_dumps :: "nat option \<Rightarrow> bool \<Rightarrow> (pystr \<times> json) list \<Rightarrow> pystr" where
  "json_dumps indent ensure_ascii obj = json_encode indent ensure_ascii 0 (JObj obj)"

section \<open>Time stamps and file names\<close>

text \<open>
  A \<open>datetime\<close>, as \<open>datetime.now()\<close> returns it, and the ranges Python guarantees for
  its fields.
\<close>

record datetime =
  year :: nat
  month :: nat
  day :: nat
  hour :: nat
  minute :: nat
  second :: nat

definition valid_datetime :: "datetime \<Rightarrow> bool" where
  "valid_datetime d =
     (1 \<le> year d \<and> year d \<le> 9999 \<and> 1 \<le> month d \<and> month d \<le> 12
      \<and> 1 \<le> day d \<and> day d \<le> 31 \<and> hour d < 24 \<and> minute d < 60 \<and> second d < 60)"

text \<open>A decimal number padded with zeros on the left to at least \<open>w\<close> digits.\<close>

definition zpad :: "nat \<Rightarrow> nat \<Rightarrow> pystr" where
  "zpad w n = replicate (w - length (digits n)) 48 @ digits n"

text \<open>
  The directives of \<open>strftime\<close> that the script uses: \<open>%Y\<close> is the year in four digits,
  the others are two digits each. (For a year below 1000 some C libraries print \<open>%Y\<close>
  without the leading zeros; nothing below rests on such a year.) Any other directive is
  left as it stands.
\<close>

definition directive :: "datetime \<Rightarrow> char \<Rightarrow> pystr" where
  "directive d c =
     (if c = CHR ''Y'' then zpad 4 (year d)
      else if c = CHR ''m'' then zpad 2 (month d)
      else if c = CHR ''d'' then zpad 2 (day d)
      else if c = CHR ''H'' then zpad 2 (hour d)
      else if c = CHR ''M'' then zpad 2 (minute d)
      else if c = CHR ''S'' then zpad 2 (second d)
      else lit [CHR ''%'', c])"

fun strftime :: "datetime \<Rightarrow> string \<Rightarrow> pystr" where
  "strftime d [] = []"
| "strftime d [c] = lit [c]"
| "strftime d (c # e # cs) =
     (if c = CHR ''%'' then directive d e @ strftime d cs
      else of_char c # strftime d (e # cs))"

text \<open>
  \<open>os.path.join(a, b)\<close> with the separator \<open>/\<close>: an absolute \<open>b\<close> replaces \<open>a\<close>,
  otherwise \<open>b\<close> is appended, after a separator unless \<open>a\<close> is empty or ends with one.
\<close>

definition path_join :: "pystr \<Rightarrow> pystr \<Rightarrow> pystr" where
  "path_join a b =
     (if take 1 b = lit ''/'' then b
      else if a = [] \<or> drop (length a - 1) a = lit ''/'' then a @ b
      else a @ lit ''/'' @ b)"

section \<open>The script\<close>

text \<open>
  What \<open>main\<close> gets from outside: the crawling service behind \<open>crawler.arun\<close>, and the
  clock, as the reading that the \<open>n\<close>-th call of \<open>datetime.now()\<close> returns, counted
  from 0. \<open>main\<close> has no parameter and reads no argument, file or environment variable.
\<close>

record world =
  arun :: "pystr \<Rightarrow> crawler_run_config \<Rightarrow> crawl_result list"
  now :: "nat \<Rightarrow> datetime"

text \<open>
  What \<open>main\<close> does to the outside: the calls it makes on the crawling service, the
  directories it creates, the files it writes (each opened with mode \<open>'w'\<close>: the path,
  the encoding it is opened with, and the characters written) and the lines it prints.
\<close>

record file_write =
  path :: pystr
  encoding :: pystr
  content :: pystr

record effects =
  crawl_calls :: "(pystr \<times> crawler_run_config) list"
  made_dirs :: "pystr list"
  written :: "file_write list"
  printed :: "pystr list"

text \<open>Lines 11 to 19.\<close>

definition config :: crawler_run_config where
  "config =
     \<lparr>deep_crawl_strategy = \<lparr>max_depth = 2, max_pages = 200, include_external = False\<rparr>,
      scraping_strategy = LXMLWebScrapingStrategy,
      verbose = True\<rparr>"

text \<open>Lines 31 to 36, from the reading of the clock taken on line 31.\<close>

definition timestamp :: "datetime \<Rightarrow> pystr" where
  "timestamp t = strftime t ''%Y%m%d_%H%M%S''"

definition results_dir :: pystr where
  "results_dir = lit ''crawl_results''"

definition md_filename :: "pystr \<Rightarrow> pystr" where
  "md_filename ts = path_join results_dir (lit ''crawl_results_'' @ ts @ lit ''.md'')"

definition txt_filename :: "pystr \<Rightarrow> pystr" where
  "txt_filename ts = path_join results_dir (lit ''crawl_results_'' @ ts @ lit ''.txt'')"

definition json_filename :: "pystr \<Rightarrow> pystr" where
  "json_filename ts = path_join results_dir (lit ''crawl_results_'' @ ts @ lit ''.json'')"

text \<open>\<open>datetime.now().strftime('%Y-%m-%d %H:%M:%S')\<close> (lines 41, 65 and 88).\<close>

definition crawl_date :: "datetime \<Rightarrow> pystr" where
  "crawl_date t = strftime t ''%Y-%m-%d %H:%M:%S''"

text \<open>Lines 120 to 122: two lines for each of the first three results.\<close>

definition print_first :: "crawl_result list \<Rightarrow> pystr list" where
  "print_first results =
     concat (map (\<lambda>r. [lit ''URL: '' @ url r, lit ''Depth: '' @ py_str (depth r)])
       (take 3 results))"

definition main :: "world \<Rightarrow> effects" where
  "main w =
     (let results = arun w (lit ''https://www.wikipedia.org'') config;
          ts = timestamp (now w 0);
          md = md_document (crawl_date (now w 1)) results;
          txt = txt_document (crawl_date (now w 2)) results;
          js = json_dumps (Some 2) False (json_data (crawl_date (now w 3)) results)
      in \<lparr>crawl_calls = [(lit ''https://www.wikipedia.org'', config)],
          made_dirs = [results_dir],
          written =
            [\<lparr>path = md_filename ts, encoding = lit ''utf-8'', content = md\<rparr>,
             \<lparr>path = txt_filename ts, encoding = lit ''utf-8'', content = txt\<rparr>,
             \<lparr>path = json_filename ts, encoding = lit ''utf-8'', content = js\<rparr>],
          printed =
            [lit ''Crawled '' @ str_int (int (length results)) @ lit '' pages in total'',
             lit ''Results saved to:'',
             lit ''  Markdown: '' @ md_filename ts,
             lit ''  Text: '' @ txt_filename ts,
             lit ''  JSON: '' @ json_filename ts]
            @ print_first results\<rparr>)"

section \<open>Basic facts about literals and loops\<close>

lemma lit_Nil [simp]: "lit [] = []"
  by (simp add: lit_def)

lemma length_lit [simp]: "length (lit s) = length s"
  by (simp add: lit_def)

lemma str_int_0: "str_int 0 = lit ''0''"
  by (simp add: str_int_def digits.simps lit_def)

lemma dashes:
  "str_times (lit ''-'') 50 = lit ''--------------------------------------------------''"
  by (simp add: str_times_def lit_def eval_nat_numeral)

section \<open>Content previews\<close>

text \<open>
  C1. A page whose \<open>cleaned_html\<close> has more than 500 characters gets, as its preview, the
  first 500 characters followed by \<open>...\<close>: inside the fenced block of the markdown
  file, inside the preview block of the text file, and as the \<open>content_preview\<close> field
  of the JSON data, the same string in all three.
\<close>

theorem long_content_preview:
  assumes "cleaned_html r = Some s" and "length s > 500"
  shows "md_preview_block r
           = lit ''**Content Preview:**\<newline>```\<newline>'' @ (take 500 s @ lit ''...'')
             @ lit ''\<newline>```\<newline>\<newline>''
       \<and> txt_preview_block r
           = lit ''Content Preview:\<newline>'' @ (take 500 s @ lit ''...'')
             @ lit ''\<newline>\<newline>''
       \<and> map_of (page_data i r) (lit ''content_preview'')
           = Some (JAtom (PStr (take 500 s @ lit ''...'')))"
proof -
  from assms(2) have ne: "s \<noteq> []" by auto
  have md: "md_preview_block r
           = lit ''**Content Preview:**\<newline>```\<newline>'' @ (take 500 s @ lit ''...'')
             @ lit ''\<newline>```\<newline>\<newline>''"
    using assms ne by (simp add: md_preview_block_def md_content_preview_def)
  have tx: "txt_preview_block r
           = lit ''Content Preview:\<newline>'' @ (take 500 s @ lit ''...'')
             @ lit ''\<newline>\<newline>''"
    using assms ne by (simp add: txt_preview_block_def txt_content_preview_def)
  have js: "map_of (page_data i r) (lit ''content_preview'')
           = Some (JAtom (PStr (take 500 s @ lit ''...'')))"
    using assms ne by (simp add: page_data_def json_content_preview_def lit_def)
  from md tx js show ?thesis by simp
qed

text \<open>A page of 501 characters \<open>x\<close>: the preview is 500 of them and the marker.\<close>

theorem long_content_preview_witness:
  "cleaned_html \<lparr>url = lit ''u'', metadata = [], status_code = PInt 200,
       cleaned_html = Some (replicate 501 120), links = NoAttr, media = NoAttr\<rparr>
     = Some (replicate 501 120)
   \<and> length (replicate 501 (120::nat)) > 500
   \<and> md_preview_block \<lparr>url = lit ''u'', metadata = [], status_code = PInt 200,
       cleaned_html = Some (replicate 501 120), links = NoAttr, media = NoAttr\<rparr>
     = lit ''**Content Preview:**\<newline>```\<newline>'' @ replicate 500 120 @ lit ''...''
       @ lit ''\<newline>```\<newline>\<newline>''
   \<and> txt_preview_block \<lparr>url = lit ''u'', metadata = [], status_code = PInt 200,
       cleaned_html = Some (replicate 501 120), links = NoAttr, media = NoAttr\<rparr>
     = lit ''Content Preview:\<newline>'' @ replicate 500 120 @ lit ''...''
       @ lit ''\<newline>\<newline>''
   \<and> map_of (page_data 1 \<lparr>url = lit ''u'', metadata = [], status_code = PInt 200,
       cleaned_html = Some (replicate 501 120), links = NoAttr, media = NoAttr\<rparr>)
       (lit ''content_preview'')
     = Some (JAtom (PStr (replicate 500 120 @ lit ''...'')))"
  using long_content_preview [of "\<lparr>url = lit ''u'', metadata = [], status_code = PInt 200,
       cleaned_html = Some (replicate 501 120), links = NoAttr, media = NoAttr\<rparr>"
       "replicate 501 120" 1]
  by simp

text \<open>
  C2. A page whose \<open>cleaned_html\<close> is \<open>None\<close> has content length 0, the JSON data carry
  \<open>content_length\<close> 0 and the empty string as \<open>content_preview\<close>, and what is written
  for the page to the markdown and to the text file is the heading, the field lines with
  a content length of 0, and the rule: there is no preview block.
\<close>

theorem absent_content:
  assumes "cleaned_html r = None"
  shows "content_length r = 0
       \<and> map_of (page_data i r) (lit ''content_length'') = Some (JAtom (PInt 0))
       \<and> map_of (page_data i r) (lit ''content_preview'') = Some (JAtom (PStr (lit '''')))
       \<and> md_page i r
           = lit ''## Page '' @ str_int i @ lit ''\<newline>\<newline>**URL:** '' @ url r
             @ lit ''\<newline>**Depth:** '' @ py_str (depth r)
             @ lit ''\<newline>**Status Code:** '' @ py_str (status_code r)
             @ lit ''\<newline>**Content Length:** 0 characters\<newline>\<newline>---\<newline>\<newline>''
       \<and> txt_page i r
           = lit ''PAGE '' @ str_int i @ lit ''\<newline>URL: '' @ url r
             @ lit ''\<newline>Depth: '' @ py_str (depth r)
             @ lit ''\<newline>Status Code: '' @ py_str (status_code r)
             @ lit ''\<newline>Content Length: 0 characters\<newline>\<newline>--------------------------------------------------\<newline>\<newline>''"
proof -
  have len: "content_length r = 0"
    using assms by (simp add: content_length_def)
  have jl: "map_of (page_data i r) (lit ''content_length'') = Some (JAtom (PInt 0))"
    using len by (simp add: page_data_def lit_def)
  have jp: "map_of (page_data i r) (lit ''content_preview'') = Some (JAtom (PStr (lit '''')))"
    using assms by (simp add: page_data_def json_content_preview_def lit_def)
  have mb: "md_preview_block r = []"
    using assms by (simp add: md_preview_block_def)
  have tb: "txt_preview_block r = []"
    using assms by (simp add: txt_preview_block_def)
  have md: "md_page i r
           = lit ''## Page '' @ str_int i @ lit ''\<newline>\<newline>**URL:** '' @ url r
             @ lit ''\<newline>**Depth:** '' @ py_str (depth r)
             @ lit ''\<newline>**Status Code:** '' @ py_str (status_code r)
             @ lit ''\<newline>**Content Length:** 0 characters\<newline>\<newline>---\<newline>\<newline>''"
    unfolding md_page_def md_heading_def md_fields_def mb len str_int_0
    by (simp add: lit_def)
  have tx: "txt_page i r
           = lit ''PAGE '' @ str_int i @ lit ''\<newline>URL: '' @ url r
             @ lit ''\<newline>Depth: '' @ py_str (depth r)
             @ lit ''\<newline>Status Code: '' @ py_str (status_code r)
             @ lit ''\<newline>Content Length: 0 characters\<newline>\<newline>--------------------------------------------------\<newline>\<newline>''"
    unfolding txt_page_def txt_heading_def txt_fields_def tb len str_int_0 dashes
    by (simp add: lit_def)
  from len jl jp md tx show ?thesis by simp
qed

text \<open>The second page of the end-to-end scenario, written out.\<close>

theorem absent_content_witness:
  "cleaned_html \<lparr>url = lit ''https://www.wikipedia.org/wiki/Main_Page'',
       metadata = [(lit ''depth'', PInt 1)], status_code = PInt 200, cleaned_html = None,
       links = NoAttr, media = NoAttr\<rparr> = None
   \<and> md_page 2 \<lparr>url = lit ''https://www.wikipedia.org/wiki/Main_Page'',
       metadata = [(lit ''depth'', PInt 1)], status_code = PInt 200, cleaned_html = None,
       links = NoAttr, media = NoAttr\<rparr>
     = lit ''## Page 2\<newline>\<newline>**URL:** https://www.wikipedia.org/wiki/Main_Page\<newline>**Depth:** 1\<newline>**Status Code:** 200\<newline>**Content Length:** 0 characters\<newline>\<newline>---\<newline>\<newline>''
   \<and> txt_page 2 \<lparr>url = lit ''https://www.wikipedia.org/wiki/Main_Page'',
       metadata = [(lit ''depth'', PInt 1)], status_code = PInt 200, cleaned_html = None,
       links = NoAttr, media = NoAttr\<rparr>
     = lit ''PAGE 2\<newline>URL: https://www.wikipedia.org/wiki/Main_Page\<newline>Depth: 1\<newline>Status Code: 200\<newline>Content Length: 0 characters\<newline>\<newline>--------------------------------------------------\<newline>\<newline>''
   \<and> map_of (page_data 2 \<lparr>url = lit ''https://www.wikipedia.org/wiki/Main_Page'',
       metadata = [(lit ''depth'', PInt 1)], status_code = PInt 200, cleaned_html = None,
       links = NoAttr, media = NoAttr\<rparr>) (lit ''content_length'')
     = Some (JAtom (PInt 0))
   \<and> map_of (page_data 2 \<lparr>url = lit ''https://www.wikipedia.org/wiki/Main_Page'',
       metadata = [(lit ''depth'', PInt 1)], status_code = PInt 200, cleaned_html = None,
       links = NoAttr, media = NoAttr\<rparr>) (lit ''content_preview'')
     = Some (JAtom (PStr (lit '''')))"
  using absent_content [of "\<lparr>url = lit ''https://www.wikipedia.org/wiki/Main_Page'',
       metadata = [(lit ''depth'', PInt 1)], status_code = PInt 200, cleaned_html = None,
       links = NoAttr, media = NoAttr\<rparr>" 2]
  by (simp add: lit_def depth_def dict_get_def str_int_def digits.simps)

text \<open>
  C9. A page whose \<open>cleaned_html\<close> is the empty string is treated as one whose
  \<open>cleaned_html\<close> is \<open>None\<close>: the content length is 0, neither the markdown nor the
  text file gets a preview block, the JSON preview is the empty string, and all that is
  written for the page is what would be written if \<open>cleaned_html\<close> were \<open>None\<close>.
\<close>

theorem empty_content_as_absent:
  assumes "cleaned_html r = Some []"
  shows "content_length r = 0
       \<and> md_preview_block r = []
       \<and> txt_preview_block r = []
       \<and> map_of (page_data i r) (lit ''content_length'') = Some (JAtom (PInt 0))
       \<and> map_of (page_data i r) (lit ''content_preview'') = Some (JAtom (PStr (lit '''')))
       \<and> md_page i r = md_page i (r\<lparr>cleaned_html := None\<rparr>)
       \<and> txt_page i r = txt_page i (r\<lparr>cleaned_html := None\<rparr>)
       \<and> page_data i r = page_data i (r\<lparr>cleaned_html := None\<rparr>)"
proof -
  have len: "content_length r = 0"
    using assms by (simp add: content_length_def)
  have mb: "md_preview_block r = []"
    using assms by (simp add: md_preview_block_def)
  have tb: "txt_preview_block r = []"
    using assms by (simp add: txt_preview_block_def)
  have jl: "map_of (page_data i r) (lit ''content_length'') = Some (JAtom (PInt 0))"
    using len by (simp add: page_data_def lit_def)
  have jp: "map_of (page_data i r) (lit ''content_preview'') = Some (JAtom (PStr (lit '''')))"
    using assms by (simp add: page_data_def json_content_preview_def lit_def)
  have md: "md_page i r = md_page i (r\<lparr>cleaned_html := None\<rparr>)"
    using assms
    by (simp add: md_page_def md_fields_def md_preview_block_def content_length_def depth_def)
  have tx: "txt_page i r = txt_page i (r\<lparr>cleaned_html := None\<rparr>)"
    using assms
    by (simp add: txt_page_def txt_fields_def txt_preview_block_def content_length_def depth_def)
  have pd: "page_data i r = page_data i (r\<lparr>cleaned_html := None\<rparr>)"
    using assms
    by (simp add: page_data_def content_length_def depth_def json_content_preview_def
        links_found_def images_found_def)
  from len mb tb jl jp md tx pd show ?thesis by simp
qed

text \<open>A page with the empty string as content.\<close>

theorem empty_content_as_absent_witness:
  "cleaned_html \<lparr>url = lit ''u'', metadata = [], status_code = PInt 200,
       cleaned_html = Some [], links = NoAttr, media = NoAttr\<rparr> = Some []
   \<and> content_length \<lparr>url = lit ''u'', metadata = [], status_code = PInt 200,
       cleaned_html = Some [], links = NoAttr, media = NoAttr\<rparr> = 0
   \<and> md_preview_block \<lparr>url = lit ''u'', metadata = [], status_code = PInt 200,
       cleaned_html = Some [], links = NoAttr, media = NoAttr\<rparr> = []
   \<and> txt_preview_block \<lparr>url = lit ''u'', metadata = [], status_code = PInt 200,
       cleaned_html = Some [], links = NoAttr, media = NoAttr\<rparr> = []
   \<and> map_of (page_data 1 \<lparr>url = lit ''u'', metadata = [], status_code = PInt 200,
       cleaned_html = Some [], links = NoAttr, media = NoAttr\<rparr>) (lit ''content_preview'')
     = Some (JAtom (PStr []))
   \<and> page_data 1 \<lparr>url = lit ''u'', metadata = [], status_code = PInt 200,
       cleaned_html = Some [], links = NoAttr, media = NoAttr\<rparr>
     = page_data 1 \<lparr>url = lit ''u'', metadata = [], status_code = PInt 200,
       cleaned_html = None, links = NoAttr, media = NoAttr\<rparr>"
proof -
  have h: "cleaned_html \<lparr>url = lit ''u'', metadata = [], status_code = PInt 200,
       cleaned_html = Some [], links = NoAttr, media = NoAttr\<rparr> = Some []"
    by simp
  note t = empty_content_as_absent [OF h, of 1, simplified]
  from h t show ?thesis by blast
qed

text \<open>
  C10, as stated: a page whose \<open>cleaned_html\<close> is present with at most 500 characters
  has that string, unchanged, as its preview in all three outputs. The empty string is
  present and has at most 500 characters, and for it nothing is written as a preview to
  the markdown or to the text file: the block with an empty preview is not what they get.
\<close>

theorem short_content_preview_counterexample:
  "cleaned_html \<lparr>url = lit ''u'', metadata = [], status_code = PInt 200,
       cleaned_html = Some [], links = NoAttr, media = NoAttr\<rparr> = Some []
   \<and> length ([] :: pystr) \<le> 500
   \<and> md_preview_block \<lparr>url = lit ''u'', metadata = [], status_code = PInt 200,
       cleaned_html = Some [], links = NoAttr, media = NoAttr\<rparr>
     \<noteq> lit ''**Content Preview:**\<newline>```\<newline>'' @ []
       @ lit ''\<newline>```\<newline>\<newline>''
   \<and> txt_preview_block \<lparr>url = lit ''u'', metadata = [], status_code = PInt 200,
       cleaned_html = Some [], links = NoAttr, media = NoAttr\<rparr>
     \<noteq> lit ''Content Preview:\<newline>'' @ [] @ lit ''\<newline>\<newline>''"
  by (simp add: md_preview_block_def txt_preview_block_def lit_def)

text \<open>
  C10, amended: a page whose \<open>cleaned_html\<close> is present and has at most 500 characters
  (500 included) has that string, unchanged and with no marker appended, as the
  \<open>content_preview\<close> field of the JSON data; the markdown and the text file carry it,
  unchanged too, inside their preview block when it is not empty, and have no preview
  block when it is empty.
\<close>

theorem short_content_preview:
  assumes "cleaned_html r = Some s" and "length s \<le> 500"
  shows "map_of (page_data i r) (lit ''content_preview'') = Some (JAtom (PStr s))
       \<and> md_preview_block r
           = (if s = [] then []
              else lit ''**Content Preview:**\<newline>```\<newline>'' @ s
                @ lit ''\<newline>```\<newline>\<newline>'')
       \<and> txt_preview_block r
           = (if s = [] then []
              else lit ''Content Preview:\<newline>'' @ s @ lit ''\<newline>\<newline>'')"
proof -
  have js: "map_of (page_data i r) (lit ''content_preview'') = Some (JAtom (PStr s))"
    using assms by (simp add: page_data_def json_content_preview_def lit_def)
  have md: "md_preview_block r
           = (if s = [] then []
              else lit ''**Content Preview:**\<newline>```\<newline>'' @ s
                @ lit ''\<newline>```\<newline>\<newline>'')"
    using assms by (simp add: md_preview_block_def md_content_preview_def)
  have tx: "txt_preview_block r
           = (if s = [] then []
              else lit ''Content Preview:\<newline>'' @ s @ lit ''\<newline>\<newline>'')"
    using assms by (simp add: txt_preview_block_def txt_content_preview_def)
  from js md tx show ?thesis by simp
qed

text \<open>A page of exactly 500 characters \<open>x\<close>.\<close>

theorem short_content_preview_witness:
  "cleaned_html \<lparr>url = lit ''u'', metadata = [], status_code = PInt 200,
       cleaned_html = Some (replicate 500 120), links = NoAttr, media = NoAttr\<rparr>
     = Some (replicate 500 120)
   \<and> length (replicate 500 (120::nat)) \<le> 500
   \<and> md_preview_block \<lparr>url = lit ''u'', metadata = [], status_code = PInt 200,
       cleaned_html = Some (replicate 500 120), links = NoAttr, media = NoAttr\<rparr>
     = lit ''**Content Preview:**\<newline>```\<newline>'' @ replicate 500 120
       @ lit ''\<newline>```\<newline>\<newline>''
   \<and> txt_preview_block \<lparr>url = lit ''u'', metadata = [], status_code = PInt 200,
       cleaned_html = Some (replicate 500 120), links = NoAttr, media = NoAttr\<rparr>
     = lit ''Content Preview:\<newline>'' @ replicate 500 120 @ lit ''\<newline>\<newline>''
   \<and> map_of (page_data 1 \<lparr>url = lit ''u'', metadata = [], status_code = PInt 200,
       cleaned_html = Some (replicate 500 120), links = NoAttr, media = NoAttr\<rparr>)
       (lit ''content_preview'')
     = Some (JAtom (PStr (replicate 500 120)))"
  using short_content_preview [of "\<lparr>url = lit ''u'', metadata = [], status_code = PInt 200,
       cleaned_html = Some (replicate 500 120), links = NoAttr, media = NoAttr\<rparr>"
       "replicate 500 120" 1]
  by simp

section \<open>The three loops\<close>

text \<open>
  Each loop leaves what was there and adds one item per result, in the order of the
  results; the item for the result at index \<open>k\<close> carries the counter's start plus \<open>k\<close>.
\<close>

lemma md_loop_pages:
  "md_loop i rs f = f @ concat (map (\<lambda>k. md_page (i + int k) (rs ! k)) [0..<length rs])"
proof (induction rs arbitrary: i f)
  case Nil
  show ?case by simp
next
  case (Cons r rs)
  have "map (\<lambda>k. md_page (i + int k) ((r # rs) ! k)) [0..<length (r # rs)]
        = md_page i r # map (\<lambda>k. md_page (i + 1 + int k) (rs ! k)) [0..<length rs]"
    by (simp add: map_upt_Suc add.assoc del: upt_Suc)
  then show ?case by (simp add: Cons.IH)
qed

lemma txt_loop_pages:
  "txt_loop i rs f = f @ concat (map (\<lambda>k. txt_page (i + int k) (rs ! k)) [0..<length rs])"
proof (induction rs arbitrary: i f)
  case Nil
  show ?case by simp
next
  case (Cons r rs)
  have "map (\<lambda>k. txt_page (i + int k) ((r # rs) ! k)) [0..<length (r # rs)]
        = txt_page i r # map (\<lambda>k. txt_page (i + 1 + int k) (rs ! k)) [0..<length rs]"
    by (simp add: map_upt_Suc add.assoc del: upt_Suc)
  then show ?case by (simp add: Cons.IH)
qed

lemma json_loop_pages:
  "json_loop i rs acc
     = acc @ map (\<lambda>k. JObj (page_data (i + int k) (rs ! k))) [0..<length rs]"
proof (induction rs arbitrary: i acc)
  case Nil
  show ?case by simp
next
  case (Cons r rs)
  have "map (\<lambda>k. JObj (page_data (i + int k) ((r # rs) ! k))) [0..<length (r # rs)]
        = JObj (page_data i r)
          # map (\<lambda>k. JObj (page_data (i + 1 + int k) (rs ! k))) [0..<length rs]"
    by (simp add: map_upt_Suc add.assoc del: upt_Suc)
  then show ?case by (simp add: Cons.IH)
qed

lemma length_json_loop: "length (json_loop i rs acc) = length acc + length rs"
  by (simp add: json_loop_pages)

section \<open>Decimal numerals\<close>

text \<open>Reading the digits back gives the number, so different numbers print differently.\<close>

lemma digits_value: "foldl (\<lambda>a c. 10 * a + (c - 48)) 0 (digits n) = n"
proof (induction n rule: digits.induct)
  case (1 n)
  show ?case
  proof (cases "n < 10")
    case True
    then show ?thesis by (simp add: digits.simps [of n])
  next
    case False
    with "1" show ?thesis by (simp add: digits.simps [of n])
  qed
qed

lemma digits_inj: "digits a = digits b \<Longrightarrow> a = b"
  by (metis digits_value)

lemma digits_range: "c \<in> set (digits n) \<Longrightarrow> 48 \<le> c \<and> c \<le> 57"
proof (induction n rule: digits.induct)
  case (1 n)
  show ?case
  proof (cases "n < 10")
    case True
    with "1.prems" show ?thesis by (simp add: digits.simps [of n])
  next
    case False
    with "1" show ?thesis by (auto simp add: digits.simps [of n])
  qed
qed

lemma digits_not_Nil: "digits n \<noteq> []"
  by (simp add: digits.simps [of n])

lemma digits_no_minus: "digits n \<noteq> 45 # cs"
proof
  assume "digits n = 45 # cs"
  then have "45 \<in> set (digits n)" by simp
  then show False using digits_range [of 45 n] by simp
qed

lemma str_int_inj: "str_int i = str_int j \<Longrightarrow> i = j"
proof -
  assume eq: "str_int i = str_int j"
  have minus: "lit ''-'' @ cs = 45 # cs" for cs by (simp add: lit_def)
  consider "i < 0" "j < 0" | "i < 0" "\<not> j < 0" | "\<not> i < 0" "j < 0" | "\<not> i < 0" "\<not> j < 0"
    by blast
  then show "i = j"
  proof cases
    case 1
    with eq have "digits (nat (- i)) = digits (nat (- j))" by (simp add: str_int_def)
    then have "nat (- i) = nat (- j)" by (rule digits_inj)
    with 1 show ?thesis by simp
  next
    case 2
    with eq have "digits (nat j) = 45 # digits (nat (- i))" by (simp add: str_int_def minus)
    then show ?thesis using digits_no_minus by blast
  next
    case 3
    with eq have "digits (nat i) = 45 # digits (nat (- j))" by (simp add: str_int_def minus)
    then show ?thesis using digits_no_minus by blast
  next
    case 4
    with eq have "digits (nat i) = digits (nat j)" by (simp add: str_int_def)
    then have "nat i = nat j" by (rule digits_inj)
    with 4 show ?thesis by simp
  qed
qed

section \<open>What the script writes\<close>

lemma main_written:
  "written (main w) =
     [\<lparr>path = md_filename (timestamp (now w 0)), encoding = lit ''utf-8'',
       content = md_document (crawl_date (now w 1))
                   (arun w (lit ''https://www.wikipedia.org'') config)\<rparr>,
      \<lparr>path = txt_filename (timestamp (now w 0)), encoding = lit ''utf-8'',
       content = txt_document (crawl_date (now w 2))
                   (arun w (lit ''https://www.wikipedia.org'') config)\<rparr>,
      \<lparr>path = json_filename (timestamp (now w 0)), encoding = lit ''utf-8'',
       content = json_dumps (Some 2) False
                   (json_data (crawl_date (now w 3))
                      (arun w (lit ''https://www.wikipedia.org'') config))\<rparr>]"
  by (simp add: main_def Let_def)

section \<open>Page counts and page numbers\<close>

text \<open>
  C3. In the JSON data built for any sequence of results, the list under \<open>results\<close> has
  as many entries as there are results, and \<open>total_pages_crawled\<close> inside
  \<open>crawl_info\<close> is that same number.
\<close>

theorem json_results_count:
  "map_of (json_data date rs) (lit ''crawl_info'') = Some (JObj (crawl_info date rs))
   \<and> map_of (crawl_info date rs) (lit ''total_pages_crawled'')
       = Some (JAtom (PInt (int (length rs))))
   \<and> map_of (json_data date rs) (lit ''results'') = Some (JArr (json_loop 1 rs []))
   \<and> length (json_loop 1 rs []) = length rs"
proof -
  have a: "map_of (json_data date rs) (lit ''crawl_info'') = Some (JObj (crawl_info date rs))"
    by (simp add: json_data_def lit_def)
  have b: "map_of (crawl_info date rs) (lit ''total_pages_crawled'')
       = Some (JAtom (PInt (int (length rs))))"
    by (simp add: crawl_info_def lit_def)
  have c: "map_of (json_data date rs) (lit ''results'') = Some (JArr (json_loop 1 rs []))"
    by (simp add: json_data_def lit_def)
  have d: "length (json_loop 1 rs []) = length rs"
    by (simp add: length_json_loop)
  from a b c d show ?thesis by simp
qed

text \<open>
  C4. In each of the three outputs the pages follow the header in the order of the
  results, one per result: the page at index \<open>k\<close> (counted from 0) is the one written
  for the result at index \<open>k\<close> and carries the number \<open>k + 1\<close>. The number is what the
  heading of a markdown or text page prints and what \<open>page_number\<close> holds in the JSON
  data, and different numbers print differently.
\<close>

theorem page_numbering:
  "md_document date rs
     = md_header date rs @ concat (map (\<lambda>k. md_page (int k + 1) (rs ! k)) [0..<length rs])
   \<and> txt_document date rs
     = txt_header date rs @ concat (map (\<lambda>k. txt_page (int k + 1) (rs ! k)) [0..<length rs])
   \<and> map_of (json_data date rs) (lit ''results'')
     = Some (JArr (map (\<lambda>k. JObj (page_data (int k + 1) (rs ! k))) [0..<length rs]))
   \<and> md_page j r
     = lit ''## Page '' @ str_int j @ lit ''\<newline>\<newline>'' @ md_fields r
       @ md_preview_block r @ lit ''---\<newline>\<newline>''
   \<and> txt_page j r
     = lit ''PAGE '' @ str_int j @ lit ''\<newline>'' @ txt_fields r @ txt_preview_block r
       @ lit ''--------------------------------------------------\<newline>\<newline>''
   \<and> map_of (page_data j r) (lit ''page_number'') = Some (JAtom (PInt j))
   \<and> (str_int i = str_int j) = (i = j)"
proof -
  have a: "md_document date rs
     = md_header date rs @ concat (map (\<lambda>k. md_page (int k + 1) (rs ! k)) [0..<length rs])"
    by (simp add: md_document_def md_loop_pages add.commute)
  have b: "txt_document date rs
     = txt_header date rs @ concat (map (\<lambda>k. txt_page (int k + 1) (rs ! k)) [0..<length rs])"
    by (simp add: txt_document_def txt_loop_pages add.commute)
  have c: "map_of (json_data date rs) (lit ''results'')
     = Some (JArr (map (\<lambda>k. JObj (page_data (int k + 1) (rs ! k))) [0..<length rs]))"
    by (simp add: json_data_def json_loop_pages add.commute lit_def)
  have d: "md_page j r
     = lit ''## Page '' @ str_int j @ lit ''\<newline>\<newline>'' @ md_fields r
       @ md_preview_block r @ lit ''---\<newline>\<newline>''"
    by (simp add: md_page_def md_heading_def)
  have e: "txt_page j r
     = lit ''PAGE '' @ str_int j @ lit ''\<newline>'' @ txt_fields r @ txt_preview_block r
       @ lit ''--------------------------------------------------\<newline>\<newline>''"
    unfolding txt_page_def txt_heading_def dashes by (simp add: lit_def)
  have f: "map_of (page_data j r) (lit ''page_number'') = Some (JAtom (PInt j))"
    by (simp add: page_data_def)
  have g: "(str_int i = str_int j) = (i = j)"
    using str_int_inj by blast
  from a b c d e f g show ?thesis by simp
qed

section \<open>Missing fields\<close>




section \<open>The request to the crawling service\<close>

text \<open>
  C7. Whatever the crawling service and the clock are, the script calls the service
  exactly once, with the seed URL \<open>https://www.wikipedia.org\<close> and the configuration of
  lines 11 to 19: depth at most 2, at most 200 pages, external links not included.
  Nothing else of the service is consulted: a service that answers this one request the
  same way and any other request differently gives the same run.
\<close>

theorem fixed_crawl_request:
  "crawl_calls (main w) = [(lit ''https://www.wikipedia.org'', config)]
   \<and> max_depth (deep_crawl_strategy config) = 2
   \<and> max_pages (deep_crawl_strategy config) = 200
   \<and> include_external (deep_crawl_strategy config) = False
   \<and> main (w\<lparr>arun := \<lambda>u c. if u = lit ''https://www.wikipedia.org'' \<and> c = config
                            then arun w u c else other u c\<rparr>)
       = main w"
proof -
  have a: "crawl_calls (main w) = [(lit ''https://www.wikipedia.org'', config)]"
    by (simp add: main_def Let_def)
  have b: "max_depth (deep_crawl_strategy config) = 2"
    by (simp add: config_def)
  have c: "max_pages (deep_crawl_strategy config) = 200"
    by (simp add: config_def)
  have d: "include_external (deep_crawl_strategy config) = False"
    by (simp add: config_def)
  have e: "main (w\<lparr>arun := \<lambda>u c. if u = lit ''https://www.wikipedia.org'' \<and> c = config
                            then arun w u c else other u c\<rparr>)
       = main w"
    by (simp add: main_def)
  from a b c d e show ?thesis by simp
qed

section \<open>The time stamp in the file names\<close>

lemma digits_1: "n < 10 \<Longrightarrow> digits n = [48 + n]"
  by (simp add: digits.simps [of n])

lemma digits_2: "10 \<le> n \<Longrightarrow> n < 100 \<Longrightarrow> digits n = [48 + n div 10, 48 + n mod 10]"
  by (simp add: digits.simps [of n] digits_1)

lemma digits_3:
  "100 \<le> n \<Longrightarrow> n < 1000 \<Longrightarrow>
     digits n = [48 + n div 100, 48 + n div 10 mod 10, 48 + n mod 10]"
  by (simp add: digits.simps [of n] digits_2 div_mult2_eq [symmetric])

lemma digits_4:
  "1000 \<le> n \<Longrightarrow> n < 10000 \<Longrightarrow>
     digits n = [48 + n div 1000, 48 + n div 100 mod 10, 48 + n div 10 mod 10, 48 + n mod 10]"
  by (simp add: digits.simps [of n] digits_3 div_mult2_eq [symmetric])

lemma zpad_2: "n < 100 \<Longrightarrow> zpad 2 n = [48 + n div 10, 48 + n mod 10]"
proof (cases "n < 10")
  case True
  then show ?thesis by (simp add: zpad_def digits_1)
next
  case False
  assume "n < 100"
  with False show ?thesis by (simp add: zpad_def digits_2)
qed

lemma zpad_4:
  "1000 \<le> n \<Longrightarrow> n < 10000 \<Longrightarrow>
     zpad 4 n = [48 + n div 1000, 48 + n div 100 mod 10, 48 + n div 10 mod 10, 48 + n mod 10]"
  by (simp add: zpad_def digits_4)

lemma timestamp_directives:
  "timestamp t
     = zpad 4 (year t) @ zpad 2 (month t) @ zpad 2 (day t) @ lit ''_''
       @ zpad 2 (hour t) @ zpad 2 (minute t) @ zpad 2 (second t)"
  by (simp add: timestamp_def directive_def lit_def)

lemma path_join_results_dir:
  "path_join results_dir (lit ''crawl_results_'' @ x) = lit ''crawl_results/crawl_results_'' @ x"
  by (simp add: path_join_def results_dir_def lit_def)

text \<open>
  C5. The time stamp is taken from one reading of the clock, the first, a date with a
  year of four digits: it is the year, month, day, an underscore, hour, minute and second,
  each in two digits but the year in four, fifteen characters in all. The three file names
  are \<open>crawl_results/crawl_results_\<close>, that one time stamp, and \<open>.md\<close>, \<open>.txt\<close> or
  \<open>.json\<close>; the later readings of the clock, which date the documents, have no part in
  them.
\<close>

theorem shared_timestamp:
  assumes "now w 0 = t" and "valid_datetime t" and "1000 \<le> year t"
  shows "timestamp t
           = [48 + year t div 1000, 48 + year t div 100 mod 10, 48 + year t div 10 mod 10,
              48 + year t mod 10,
              48 + month t div 10, 48 + month t mod 10,
              48 + day t div 10, 48 + day t mod 10,
              95,
              48 + hour t div 10, 48 + hour t mod 10,
              48 + minute t div 10, 48 + minute t mod 10,
              48 + second t div 10, 48 + second t mod 10]
       \<and> map path (written (main w))
           = [lit ''crawl_results/crawl_results_'' @ timestamp t @ lit ''.md'',
              lit ''crawl_results/crawl_results_'' @ timestamp t @ lit ''.txt'',
              lit ''crawl_results/crawl_results_'' @ timestamp t @ lit ''.json'']
       \<and> made_dirs (main w) = [lit ''crawl_results'']"
proof -
  from assms(2,3) have y: "1000 \<le> year t" "year t < 10000"
    and rest: "month t < 100" "day t < 100" "hour t < 100" "minute t < 100" "second t < 100"
    by (simp_all add: valid_datetime_def)
  have ts: "timestamp t
           = [48 + year t div 1000, 48 + year t div 100 mod 10, 48 + year t div 10 mod 10,
              48 + year t mod 10,
              48 + month t div 10, 48 + month t mod 10,
              48 + day t div 10, 48 + day t mod 10,
              95,
              48 + hour t div 10, 48 + hour t mod 10,
              48 + minute t div 10, 48 + minute t mod 10,
              48 + second t div 10, 48 + second t mod 10]"
    unfolding timestamp_directives zpad_4 [OF y] zpad_2 [OF rest(1)] zpad_2 [OF rest(2)]
      zpad_2 [OF rest(3)] zpad_2 [OF rest(4)] zpad_2 [OF rest(5)]
    by (simp add: lit_def)
  have names: "map path (written (main w))
           = [lit ''crawl_results/crawl_results_'' @ timestamp t @ lit ''.md'',
              lit ''crawl_results/crawl_results_'' @ timestamp t @ lit ''.txt'',
              lit ''crawl_results/crawl_results_'' @ timestamp t @ lit ''.json'']"
    unfolding main_written md_filename_def txt_filename_def json_filename_def
      append_assoc path_join_results_dir assms(1)
    by simp
  have dirs: "made_dirs (main w) = [lit ''crawl_results'']"
    by (simp add: main_def Let_def results_dir_def)
  from ts names dirs show ?thesis by simp
qed

text \<open>
  A clock that reads 2026-03-09 07:05:00 first and a later second at each later reading.
\<close>

theorem shared_timestamp_witness:
  "now \<lparr>arun = \<lambda>u c. [],
         now = \<lambda>n. \<lparr>year = 2026, month = 3, day = 9, hour = 7, minute = 5, second = n\<rparr>\<rparr> 0
     = \<lparr>year = 2026, month = 3, day = 9, hour = 7, minute = 5, second = 0\<rparr>
   \<and> valid_datetime \<lparr>year = 2026, month = 3, day = 9, hour = 7, minute = 5, second = 0\<rparr>
   \<and> 1000 \<le> year \<lparr>year = 2026, month = 3, day = 9, hour = 7, minute = 5, second = 0\<rparr>
   \<and> timestamp \<lparr>year = 2026, month = 3, day = 9, hour = 7, minute = 5, second = 0\<rparr>
     = lit ''20260309_070500''
   \<and> map path (written (main \<lparr>arun = \<lambda>u c. [],
         now = \<lambda>n. \<lparr>year = 2026, month = 3, day = 9, hour = 7, minute = 5, second = n\<rparr>\<rparr>))
     = [lit ''crawl_results/crawl_results_20260309_070500.md'',
        lit ''crawl_results/crawl_results_20260309_070500.txt'',
        lit ''crawl_results/crawl_results_20260309_070500.json'']"
proof -
  have h: "now \<lparr>arun = \<lambda>u c. [],
         now = \<lambda>n. \<lparr>year = 2026, month = 3, day = 9, hour = 7, minute = 5, second = n\<rparr>\<rparr> 0
     = \<lparr>year = 2026, month = 3, day = 9, hour = 7, minute = 5, second = 0\<rparr>"
    by simp
  have v: "valid_datetime \<lparr>year = 2026, month = 3, day = 9, hour = 7, minute = 5, second = 0\<rparr>"
    by (simp add: valid_datetime_def)
  have y: "1000 \<le> year \<lparr>year = 2026, month = 3, day = 9, hour = 7, minute = 5, second = 0\<rparr>"
    by simp
  note t = shared_timestamp [OF h v y]
  from t have ts: "timestamp \<lparr>year = 2026, month = 3, day = 9, hour = 7, minute = 5, second = 0\<rparr>
     = lit ''20260309_070500''"
    by (simp add: lit_def)
  from t ts h v y show ?thesis by (simp add: lit_def)
qed

section \<open>The JSON file\<close>

lemma indent_1: "newline_indent (Some 2) 1 = lit ''\<newline>  ''"
  by (simp add: newline_indent_def str_times_def lit_def eval_nat_numeral)

lemma indent_2: "newline_indent (Some 2) 2 = lit ''\<newline>    ''"
  by (simp add: newline_indent_def str_times_def lit_def eval_nat_numeral)

lemma indent_3: "newline_indent (Some 2) 3 = lit ''\<newline>      ''"
  by (simp add: newline_indent_def str_times_def lit_def eval_nat_numeral)

lemma encode_str_lit:
  \<open>encode_str False (lit ''https://www.wikipedia.org'') = lit ''"https://www.wikipedia.org"''\<close>
  by (simp add: encode_str_def escape_char_def escape_dct_def lit_def)

lemma encode_key:
  \<open>encode_str False (lit ''crawl_info'') = lit ''"crawl_info"''\<close>
  \<open>encode_str False (lit ''results'') = lit ''"results"''\<close>
  \<open>encode_str False (lit ''crawl_date'') = lit ''"crawl_date"''\<close>
  \<open>encode_str False (lit ''total_pages_crawled'') = lit ''"total_pages_crawled"''\<close>
  \<open>encode_str False (lit ''max_pages_limit'') = lit ''"max_pages_limit"''\<close>
  \<open>encode_str False (lit ''starting_url'') = lit ''"starting_url"''\<close>
  \<open>encode_str False (lit ''page_number'') = lit ''"page_number"''\<close>
  \<open>encode_str False (lit ''url'') = lit ''"url"''\<close>
  \<open>encode_str False (lit ''depth'') = lit ''"depth"''\<close>
  \<open>encode_str False (lit ''status_code'') = lit ''"status_code"''\<close>
  \<open>encode_str False (lit ''content_length'') = lit ''"content_length"''\<close>
  \<open>encode_str False (lit ''title'') = lit ''"title"''\<close>
  \<open>encode_str False (lit ''description'') = lit ''"description"''\<close>
  \<open>encode_str False (lit ''content_preview'') = lit ''"content_preview"''\<close>
  \<open>encode_str False (lit ''links_found'') = lit ''"links_found"''\<close>
  \<open>encode_str False (lit ''images_found'') = lit ''"images_found"''\<close>
  by (simp_all add: encode_str_def escape_char_def escape_dct_def lit_def)

lemma str_int_200: "str_int 200 = lit ''200''"
  by (simp add: str_int_def digits.simps lit_def)

lemma page_text:
  \<open>json_encode (Some 2) False 2 (JObj (page_data i r))
     = lit ''{\<newline>      "page_number": '' @ str_int i
       @ lit '',\<newline>      "url": '' @ encode_str False (url r)
       @ lit '',\<newline>      "depth": '' @ encode_atom False (depth r)
       @ lit '',\<newline>      "status_code": '' @ encode_atom False (status_code r)
       @ lit '',\<newline>      "content_length": '' @ str_int (content_length r)
       @ lit '',\<newline>      "title": ''
       @ encode_atom False (dict_get (metadata r) (lit ''title'') (PStr (lit '''')))
       @ lit '',\<newline>      "description": ''
       @ encode_atom False (dict_get (metadata r) (lit ''description'') (PStr (lit '''')))
       @ lit '',\<newline>      "content_preview": ''
       @ encode_str False (json_content_preview (cleaned_html r))
       @ lit '',\<newline>      "links_found": '' @ str_int (links_found r)
       @ lit '',\<newline>      "images_found": '' @ str_int (images_found r)
       @ lit ''\<newline>    }''\<close>
  unfolding page_data_def json_encode.simps list.map fst_conv snd_conv join.simps
    encode_key encode_atom.simps item_separator_def option.case
  by (simp add: indent_2 indent_3 lit_def)

lemma crawl_info_text:
  \<open>json_encode (Some 2) False 1 (JObj (crawl_info date rs))
     = lit ''{\<newline>    "crawl_date": '' @ encode_str False date
       @ lit '',\<newline>    "total_pages_crawled": '' @ str_int (int (length rs))
       @ lit '',\<newline>    "max_pages_limit": 200''
       @ lit '',\<newline>    "starting_url": "https://www.wikipedia.org"''
       @ lit ''\<newline>  }''\<close>
  unfolding crawl_info_def json_encode.simps list.map fst_conv snd_conv join.simps
    encode_key encode_atom.simps item_separator_def option.case str_int_200 encode_str_lit
    one_add_one indent_1 indent_2
  by (simp add: lit_def)

lemma results_text:
  \<open>json_encode (Some 2) False 1 (JArr (json_loop 1 rs []))
     = (if rs = [] then lit ''[]''
        else lit ''[\<newline>    ''
          @ join (lit '',\<newline>    '')
              (map (\<lambda>k. json_encode (Some 2) False 2 (JObj (page_data (int k + 1) (rs ! k))))
                 [0..<length rs])
          @ lit ''\<newline>  ]'')\<close>
proof (cases "rs = []")
  case True
  then show ?thesis by simp
next
  case False
  have pages: "json_loop 1 rs []
      = map (\<lambda>k. JObj (page_data (int k + 1) (rs ! k))) [0..<length rs]"
    by (simp add: json_loop_pages add.commute)
  have ne: "map (\<lambda>k. JObj (page_data (int k + 1) (rs ! k))) [0..<length rs] \<noteq> []"
    using False by simp
  show ?thesis
    unfolding pages json_encode.simps if_not_P [OF ne] if_not_P [OF False] one_add_one
      indent_1 indent_2 item_separator_def option.case map_map o_def
    by (simp add: lit_def)
qed

lemma document_text:
  \<open>json_dumps (Some 2) False (json_data date rs)
     = lit ''{\<newline>  "crawl_info": '' @ json_encode (Some 2) False 1 (JObj (crawl_info date rs))
       @ lit '',\<newline>  "results": '' @ json_encode (Some 2) False 1 (JArr (json_loop 1 rs []))
       @ lit ''\<newline>}''\<close>
proof -
  have i0: "newline_indent (Some 2) 0 = lit ''\<newline>''"
    by (simp add: newline_indent_def str_times_def)
  have "json_encode (Some 2) False 0 (JObj (json_data date rs))
     = lit ''{'' @ newline_indent (Some 2) 1
       @ (encode_str False (lit ''crawl_info'') @ lit '': ''
          @ json_encode (Some 2) False 1 (JObj (crawl_info date rs)))
       @ (item_separator (Some 2) @ newline_indent (Some 2) 1)
       @ (encode_str False (lit ''results'') @ lit '': ''
          @ json_encode (Some 2) False 1 (JArr (json_loop 1 rs [])))
       @ newline_indent (Some 2) 0 @ lit ''}''"
    by (simp add: json_data_def)
  then show ?thesis
    unfolding json_dumps_def encode_key indent_1 i0 item_separator_def option.case
    by (simp add: lit_def)
qed

lemma escape_char_plain:
  "32 \<le> c \<Longrightarrow> c \<noteq> 34 \<Longrightarrow> c \<noteq> 92 \<Longrightarrow> escape_char c = [c]"
  by (simp add: escape_char_def escape_dct_def)

text \<open>
  What the default \<open>ensure_ascii=True\<close> would have done to a character that is not
  ASCII: replaced it by an escape that starts with a backslash and \<open>u\<close>.
\<close>

lemma escape_char_ascii_escapes:
  "take 2 (escape_char_ascii (128 + c)) = [92, 117]"
  by (simp add: escape_char_ascii_def escape_dct_def lit_def Let_def)

text \<open>
  C8. The third file the script writes is opened as UTF-8 and holds the JSON data
  serialised with an indent of 2 and without the ASCII-only escaping. Its text is laid
  out one item per line, two spaces deeper at each level: the \<open>crawl_info\<close> fields,
  then the list of pages, each page with its ten fields in the order \<open>page_number\<close>,
  \<open>url\<close>, \<open>depth\<close>, \<open>status_code\<close>, \<open>content_length\<close>, \<open>title\<close>,
  \<open>description\<close>, \<open>content_preview\<close>, \<open>links_found\<close>, \<open>images_found\<close>.
  A string is written between double quotes character by character, and every character
  that is not ASCII (code point 128 or more) is written as itself, not as an escape.
\<close>

theorem json_file_layout:
  \<open>written (main w) ! 2
     = \<lparr>path = json_filename (timestamp (now w 0)), encoding = lit ''utf-8'',
        content = json_dumps (Some 2) False
                    (json_data (crawl_date (now w 3))
                       (arun w (lit ''https://www.wikipedia.org'') config))\<rparr>
   \<and> json_dumps (Some 2) False (json_data date rs)
     = lit ''{\<newline>  "crawl_info": {\<newline>    "crawl_date": '' @ encode_str False date
       @ lit '',\<newline>    "total_pages_crawled": '' @ str_int (int (length rs))
       @ lit '',\<newline>    "max_pages_limit": 200''
       @ lit '',\<newline>    "starting_url": "https://www.wikipedia.org"''
       @ lit ''\<newline>  },\<newline>  "results": ''
       @ (if rs = [] then lit ''[]''
          else lit ''[\<newline>    ''
            @ join (lit '',\<newline>    '')
                (map (\<lambda>k. json_encode (Some 2) False 2 (JObj (page_data (int k + 1) (rs ! k))))
                   [0..<length rs])
            @ lit ''\<newline>  ]'')
       @ lit ''\<newline>}''
   \<and> json_encode (Some 2) False 2 (JObj (page_data i r))
     = lit ''{\<newline>      "page_number": '' @ str_int i
       @ lit '',\<newline>      "url": '' @ encode_str False (url r)
       @ lit '',\<newline>      "depth": '' @ encode_atom False (depth r)
       @ lit '',\<newline>      "status_code": '' @ encode_atom False (status_code r)
       @ lit '',\<newline>      "content_length": '' @ str_int (content_length r)
       @ lit '',\<newline>      "title": ''
       @ encode_atom False (dict_get (metadata r) (lit ''title'') (PStr (lit '''')))
       @ lit '',\<newline>      "description": ''
       @ encode_atom False (dict_get (metadata r) (lit ''description'') (PStr (lit '''')))
       @ lit '',\<newline>      "content_preview": ''
       @ encode_str False (json_content_preview (cleaned_html r))
       @ lit '',\<newline>      "links_found": '' @ str_int (links_found r)
       @ lit '',\<newline>      "images_found": '' @ str_int (images_found r)
       @ lit ''\<newline>    }''
   \<and> map fst (page_data i r)
     = [lit ''page_number'', lit ''url'', lit ''depth'', lit ''status_code'',
        lit ''content_length'', lit ''title'', lit ''description'', lit ''content_preview'',
        lit ''links_found'', lit ''images_found'']
   \<and> encode_atom False (PStr s) = [34] @ concat (map escape_char s) @ [34]
   \<and> encode_str False s = [34] @ concat (map escape_char s) @ [34]
   \<and> escape_char (128 + c) = [128 + c]\<close>
proof -
  have fl: "written (main w) ! 2
     = \<lparr>path = json_filename (timestamp (now w 0)), encoding = lit ''utf-8'',
        content = json_dumps (Some 2) False
                    (json_data (crawl_date (now w 3))
                       (arun w (lit ''https://www.wikipedia.org'') config))\<rparr>"
    by (simp add: main_written)
  have doc: \<open>json_dumps (Some 2) False (json_data date rs)
     = lit ''{\<newline>  "crawl_info": {\<newline>    "crawl_date": '' @ encode_str False date
       @ lit '',\<newline>    "total_pages_crawled": '' @ str_int (int (length rs))
       @ lit '',\<newline>    "max_pages_limit": 200''
       @ lit '',\<newline>    "starting_url": "https://www.wikipedia.org"''
       @ lit ''\<newline>  },\<newline>  "results": ''
       @ (if rs = [] then lit ''[]''
          else lit ''[\<newline>    ''
            @ join (lit '',\<newline>    '')
                (map (\<lambda>k. json_encode (Some 2) False 2 (JObj (page_data (int k + 1) (rs ! k))))
                   [0..<length rs])
            @ lit ''\<newline>  ]'')
       @ lit ''\<newline>}''\<close>
    unfolding document_text crawl_info_text results_text by (simp add: lit_def)
  have order: "map fst (page_data i r)
     = [lit ''page_number'', lit ''url'', lit ''depth'', lit ''status_code'',
        lit ''content_length'', lit ''title'', lit ''description'', lit ''content_preview'',
        lit ''links_found'', lit ''images_found'']"
    by (simp add: page_data_def)
  have st: "encode_str False s = [34] @ concat (map escape_char s) @ [34]"
    by (simp add: encode_str_def)
  have atom: "encode_atom False (PStr s) = [34] @ concat (map escape_char s) @ [34]"
    by (simp add: encode_str_def)
  have na: "escape_char (128 + c) = [128 + c]"
    by (rule escape_char_plain) simp_all
  from fl doc page_text [of i r] order atom st na show ?thesis by blast
qed

text \<open>
  A page whose title is \<open>Wikip\<close>, the letter e with an acute accent (code point 233),
  \<open>dia\<close>, and whose content has a line break in it: the accented letter is written as
  itself, the line break as \<open>\n\<close>.
\<close>

theorem json_file_layout_witness:
  \<open>json_encode (Some 2) False 2
     (JObj (page_data 1 \<lparr>url = lit ''https://www.wikipedia.org'',
        metadata = [(lit ''depth'', PInt 0), (lit ''title'', PStr (lit ''Wikip'' @ [233] @ lit ''dia''))],
        status_code = PInt 200, cleaned_html = Some (lit ''Hello\<newline>world''),
        links = Attr (Some [(lit ''internal'', [PNone, PNone])]), media = NoAttr\<rparr>))
   = lit ''{\<newline>      "page_number": 1,\<newline>      "url": "https://www.wikipedia.org",\<newline>      "depth": 0,\<newline>      "status_code": 200,\<newline>      "content_length": 11,\<newline>      "title": "Wikip''
     @ [233]
     @ lit ''dia",\<newline>      "description": "",\<newline>      "content_preview": "Hello''
     @ [92]
     @ lit ''nworld",\<newline>      "links_found": 2,\<newline>      "images_found": 0\<newline>    }''\<close>
proof -
  note t = json_file_layout [where i = 1 and r =
      "\<lparr>url = lit ''https://www.wikipedia.org'',
        metadata = [(lit ''depth'', PInt 0), (lit ''title'', PStr (lit ''Wikip'' @ [233] @ lit ''dia''))],
        status_code = PInt 200, cleaned_html = Some (lit ''Hello\<newline>world''),
        links = Attr (Some [(lit ''internal'', [PNone, PNone])]), media = NoAttr\<rparr>"]
  from t [THEN conjunct2, THEN conjunct2, THEN conjunct1] show ?thesis
    by (simp add: depth_def dict_get_def content_length_def json_content_preview_def
        links_found_def images_found_def encode_str_def escape_char_def escape_dct_def
        str_int_def digits.simps lit_def)
qed

end
